theory Spec2Isabelle
  imports Main
begin

section \<open>Data model of the htpasswd store (src/types/index.ts, src/src/htpasswd.ts)\<close>

text \<open>
  Error objects. A file-system error carries a \<open>code\<close> (\<open>err.code\<close>, such as
  \<open>ENOENT\<close> or \<open>EACCES\<close>); an \<open>Error\<close> made by \<open>new Error(msg)\<close>
  carries only its message; \<open>TypeError\<close> is what the runtime throws when a method is
  called on \<open>undefined\<close>.
\<close>

datatype error = SysError string | Error string | TypeError string

fun code :: "error \<Rightarrow> string option" where
  "code (SysError c) = Some c"
| "code (Error m) = None"
| "code (TypeError m) = None"

text \<open>The test \<open>err.code === 'ENOENT'\<close>.\<close>

definition is_ENOENT :: "error \<Rightarrow> bool" where
  "is_ENOENT e = (code e = Some ''ENOENT'')"

text \<open>
  A \<open>Date\<close> is an object: it has an identity (its place in the heap) and a time value
  (milliseconds since the epoch). The operator \<open>===\<close> on two objects compares
  identities, never time values, and \<open>undefined === d\<close> is false.
\<close>

record date =
  ident :: nat
  time :: int

definition strict_eq :: "date option \<Rightarrow> date \<Rightarrow> bool" where
  "strict_eq lt m = (case lt of None \<Rightarrow> False | Some d \<Rightarrow> ident d = ident m)"

text \<open>\<open>interface User\<close> and the index \<open>this.users\<close>, an object keyed by username.\<close>

record user =
  passwd :: string
  groups :: "string list"

type_synonym users = "string \<rightharpoonup> user"

text \<open>\<open>interface FileConf\<close>; \<open>path\<close> and \<open>lastTime\<close> are optional fields.\<close>

record fileconf =
  isDefault :: bool
  fileName :: string
  groupName :: string
  path :: "string option"
  lastTime :: "date option"

text \<open>
  A JavaScript number as far as \<open>max_users\<close> needs it: an integer or \<open>Infinity\<close>
  (fractions and NaN are left out). \<open>interface AuthConf\<close> is the plugin's configuration;
  a missing \<open>files\<close> or \<open>max_users\<close> key is \<open>None\<close>.
\<close>

datatype number = Num int | Infinity

record authconf =
  conf_files :: "fileconf list option"
  max_users :: "number option"

text \<open>
  The fields of \<open>class HTPasswd\<close> that the operations read. \<open>defaultConfig\<close> is, in
  the source, a reference to one element of \<open>files\<close>; only its fields \<open>groupName\<close>
  and \<open>path\<close>, which nothing ever assigns after construction, are read through it.
  \<open>this_path\<close> is the field \<open>this.path\<close>.
\<close>

record store =
  users :: users
  files :: "fileconf list"
  defaultConfig :: fileconf
  maxUsers :: number
  this_path :: string

section \<open>The environment: file system, lock library, event loop\<close>

text \<open>
  Every request the store makes to the outside is written to a trace, in order.
  \<open>Lock p\<close> is a lock on \<open>p\<close> that was acquired, \<open>LockFailed p\<close> an acquisition that
  failed, \<open>Unlock p\<close> a call of \<open>unlockFile\<close>.
\<close>

datatype event =
  Stat string | Read string | Write string string
  | Lock string | LockFailed string | Unlock string

text \<open>
  What the outside answers. \<open>stat_env p\<close> is the outcome of \<open>fs.stat(p)\<close>: an error, or
  the \<open>Date\<close> object \<open>stats.mtime\<close>. \<open>read_env p\<close> is the outcome of reading \<open>p\<close>.
  \<open>write_env p body\<close> is the outcome of \<open>fs.writeFile(p, body)\<close>: an error, or the
  modification time the file shows afterwards. \<open>lock_env p\<close> is the error of a failed
  lock acquisition, \<open>unlock_env p\<close> the error that \<open>unlockFile\<close> hands to its callback.
  \<open>sched\<close> is the order in which the event loop completes the per-file chains of one
  \<open>Promise.all\<close> (indices into \<open>this.files\<close>).
\<close>

record world =
  stat_env :: "string \<Rightarrow> error + date"
  read_env :: "string \<Rightarrow> error + string"
  write_env :: "string \<Rightarrow> string \<Rightarrow> error + date"
  lock_env :: "string \<Rightarrow> error option"
  unlock_env :: "string \<Rightarrow> error option"
  sched :: "nat list"
  trace :: "event list"

definition emit :: "event \<Rightarrow> world \<Rightarrow> world" where
  "emit e w = w\<lparr>trace := trace w @ [e]\<rparr>"

text \<open>\<open>fs.writeFile\<close>: on success the file has the new content and a new time stamp.\<close>

definition fs_writeFile :: "string \<Rightarrow> string \<Rightarrow> world \<Rightarrow> error option \<times> world" where
  "fs_writeFile p body w =
     (let w1 = emit (Write p body) w in
      case write_env w p body of
        Inl e \<Rightarrow> (Some e, w1)
      | Inr m \<Rightarrow> (None, w1\<lparr>read_env := (read_env w)(p := Inr body),
                             stat_env := (stat_env w)(p := Inr m)\<rparr>))"

text \<open>
  \<open>unlockFile(path, cb)\<close> of the lock library: the release is attempted, and the
  callback gets the library's error, if any.
\<close>

definition unlockFile :: "string \<Rightarrow> world \<Rightarrow> error option \<times> world" where
  "unlockFile p w = (unlock_env w p, emit (Unlock p) w)"

text \<open>
  Modelled from the spec: \<open>lockAndRead\<close> of \<open>./utils\<close>, which is not among the sources.
  Section 4.2: the lock is acquired or the acquisition fails with an error; a missing
  file is not an acquisition error (the lock is taken and the read step reports
  NotFound); any other read failure surfaces with the lock still held. The result is
  the pair \<open>(err, res)\<close> given to the callback.
\<close>

definition lockAndRead :: "string \<Rightarrow> world \<Rightarrow> (error option \<times> string option) \<times> world" where
  "lockAndRead p w =
     (case lock_env w p of
        Some e \<Rightarrow> ((Some e, None), emit (LockFailed p) w)
      | None \<Rightarrow>
          (case read_env w p of
             Inl e \<Rightarrow> ((Some e, None), emit (Lock p) w)
           | Inr c \<Rightarrow> ((None, Some c), emit (Lock p) w)))"

section \<open>Reading the trace\<close>







section \<open>The helpers of \<open>./utils\<close>\<close>

text \<open>
  \<open>htpasswd.ts\<close> imports \<open>verifyPassword\<close>, \<open>parseHTPasswd\<close>, \<open>addUserToHTPasswd\<close>,
  \<open>changePasswordToHTPasswd\<close> and \<open>sanityCheck\<close> from \<open>./utils\<close>, which is not among
  the sources. The operations take them as a parameter. The two that build file content
  can throw, so they return a sum.
\<close>

record utils =
  verifyPassword :: "string \<Rightarrow> string \<Rightarrow> bool"
  parseHTPasswd :: "string \<Rightarrow> string \<Rightarrow> users \<Rightarrow> users"
  addUserToHTPasswd :: "string \<Rightarrow> string \<Rightarrow> string \<Rightarrow> error + string"
  changePasswordToHTPasswd :: "string \<Rightarrow> string \<Rightarrow> string \<Rightarrow> string \<Rightarrow> error + string"
  sanityCheck :: "string \<Rightarrow> string \<Rightarrow> (string \<Rightarrow> string \<Rightarrow> bool) \<Rightarrow> users \<Rightarrow> number \<Rightarrow> error option"

section \<open>The constructor\<close>

text \<open>\<open>maxUsers || Infinity\<close>: the number 0 and \<open>undefined\<close> are falsy.\<close>

definition or_Infinity :: "number option \<Rightarrow> number" where
  "or_Infinity m =
     (case m of
        None \<Rightarrow> Infinity
      | Some (Num n) \<Rightarrow> (if n = 0 then Infinity else Num n)
      | Some Infinity \<Rightarrow> Infinity)"

text \<open>
  \<open>constructor(config, stuff)\<close>. \<open>resolve self_path f\<close> stands for
  \<open>Path.resolve(Path.dirname(self_path), f)\<close>, where \<open>self_path\<close> is
  \<open>stuff.config.self_path\<close>. The source maps over \<open>files\<close> before it tests
  \<open>!files\<close>, so a missing \<open>files\<close> throws a \<open>TypeError\<close> there. A \<open>throw\<close> is
  \<open>Inl\<close>. The messages are the source's, without their inner double quotes.
\<close>

definition constructor :: "(string \<Rightarrow> string \<Rightarrow> string) \<Rightarrow> authconf \<Rightarrow> string \<Rightarrow> error + store" where
  "constructor resolve config self_path =
     (case conf_files config of
        None \<Rightarrow> Inl (TypeError ''Cannot read property map of undefined'')
      | Some fs \<Rightarrow>
          (let files' = map (\<lambda>item. item\<lparr>path := Some (resolve self_path (fileName item))\<rparr>) fs in
           if fs = [] then Inl (Error ''should specify files in config'')
           else
             (case find isDefault files' of
                None \<Rightarrow> Inl (Error ''A Defualt file should be specified in files'')
              | Some d \<Rightarrow>
                  (case path d of
                     None \<Rightarrow> Inl (Error ''A Defualt file should be specified in files'')
                   | Some p \<Rightarrow>
                       if p = [] then Inl (Error ''A Defualt file should be specified in files'')
                       else Inr \<lparr>users = Map.empty, files = files', defaultConfig = d,
                                 maxUsers = or_Infinity (max_users config), this_path = p\<rparr>))))"

section \<open>Reload\<close>

text \<open>
  \<open>_reloadFile(item)\<close>, from the call to the moment its promise settles. It returns the
  rejection (if any), the item, whose \<open>lastTime\<close> it may have assigned, and the index,
  into which \<open>Object.assign\<close> may have merged the parsed entries. The assignment to
  \<open>item.lastTime\<close> stands before the call of \<open>fs.readFile\<close>, as in the source.
\<close>

definition reloadFile ::
  "(string \<Rightarrow> string \<Rightarrow> users \<Rightarrow> users) \<Rightarrow> fileconf \<Rightarrow> users \<Rightarrow> world
     \<Rightarrow> error option \<times> fileconf \<times> users \<times> world" where
  "reloadFile parse item oldUsers w =
     (case path item of
        None \<Rightarrow> (None, item, oldUsers, w)
      | Some filePath \<Rightarrow>
          if filePath = [] then (None, item, oldUsers, w)
          else
            (let w1 = emit (Stat filePath) w in
             case stat_env w filePath of
               Inl err \<Rightarrow> (Some err, item, oldUsers, w1)
             | Inr mtime \<Rightarrow>
                 if strict_eq (lastTime item) mtime then (None, item, oldUsers, w1)
                 else
                   (let item' = item\<lparr>lastTime := Some mtime\<rparr>;
                        w2 = emit (Read filePath) w1 in
                    case read_env w filePath of
                      Inl err \<Rightarrow> (Some err, item', oldUsers, w2)
                    | Inr buffer \<Rightarrow>
                        (None, item', oldUsers ++ parse buffer (groupName item) oldUsers, w2))))"

text \<open>
  \<open>Promise.all\<close> over the files: every chain is started, and each runs to its end
  whatever the others do; the promise of the whole rejects with the first rejection.
  The chains touch the index only in their last callback, so a pass is a sequence of
  whole-file steps in the order in which the chains complete. \<open>completion_order n s\<close>
  makes any \<open>sched\<close> such an order for \<open>n\<close> files: the files it names, in its order,
  then the others in the configured order. The store and the world that \<open>reloadAll\<close>
  returns are those reached once every chain has settled; the error is the first
  rejection in the order of completion.
\<close>

definition completion_order :: "nat \<Rightarrow> nat list \<Rightarrow> nat list" where
  "completion_order n s = filter (\<lambda>i. i < n) (remdups s) @ filter (\<lambda>i. i \<notin> set s) [0..<n]"

fun reloadAll ::
  "(string \<Rightarrow> string \<Rightarrow> users \<Rightarrow> users) \<Rightarrow> nat list \<Rightarrow> store \<Rightarrow> world
     \<Rightarrow> error option \<times> store \<times> world" where
  "reloadAll parse [] s w = (None, s, w)"
| "reloadAll parse (i # is) s w =
     (case reloadFile parse (files s ! i) (users s) w of
        (err, item', users', w') \<Rightarrow>
          (case reloadAll parse is (s\<lparr>files := (files s)[i := item'], users := users'\<rparr>) w' of
             (err', s', w'') \<Rightarrow>
               ((case err of Some e \<Rightarrow> Some e | None \<Rightarrow> err'), s', w'')))"

text \<open>\<open>reload(callback)\<close>: the result is the argument of the callback.\<close>

definition reload ::
  "(string \<Rightarrow> string \<Rightarrow> users \<Rightarrow> users) \<Rightarrow> store \<Rightarrow> world \<Rightarrow> error option \<times> store \<times> world" where
  "reload parse s w = reloadAll parse (completion_order (length (files s)) (sched w)) s w"

section \<open>Authenticate\<close>

text \<open>
  The arguments of the callback of \<open>authenticate\<close>: an error or \<open>null\<close>, and as second
  argument nothing (\<open>cb(err)\<close>, \<open>cb(null)\<close>), \<open>false\<close>, or the user's groups.
\<close>

datatype auth_value = VFalse | VGroups "string list"

definition authenticate ::
  "utils \<Rightarrow> string \<Rightarrow> string \<Rightarrow> store \<Rightarrow> world
     \<Rightarrow> (error option \<times> auth_value option) \<times> store \<times> world" where
  "authenticate U usr password s w =
     (case reload (parseHTPasswd U) s w of
        (Some err, s', w') \<Rightarrow> ((if is_ENOENT err then None else Some err, None), s', w')
      | (None, s', w') \<Rightarrow>
          (case users s' usr of
             None \<Rightarrow> ((None, Some VFalse), s', w')
           | Some u \<Rightarrow>
               if \<not> verifyPassword U password (passwd u) then ((None, Some VFalse), s', w')
               else ((None, Some (VGroups (groups u))), s', w')))"

section \<open>Mutations\<close>

text \<open>
  \<open>_writeFile(body, cb)\<close>: the result is the argument given to \<open>cb\<close>. The callback of the
  reload after a successful write drops the reload's error.
\<close>

definition writeFile ::
  "(string \<Rightarrow> string \<Rightarrow> users \<Rightarrow> users) \<Rightarrow> string \<Rightarrow> store \<Rightarrow> world
     \<Rightarrow> error option \<times> store \<times> world" where
  "writeFile parse body s w =
     (case fs_writeFile (this_path s) body w of
        (Some err, w1) \<Rightarrow> (Some err, s, w1)
      | (None, w1) \<Rightarrow> (case reload parse s w1 of (_, s2, w2) \<Rightarrow> (None, s2, w2)))"

text \<open>
  The local function \<open>cb\<close> of \<open>adduser\<close> and of \<open>changePassword\<close>, "callback that
  cleans up lock first": with \<open>locked\<close> set it calls \<open>unlockFile\<close> and ignores what that
  reports; either way it ends in \<open>realCb(err, !err)\<close>.
\<close>

definition cb ::
  "bool \<Rightarrow> string \<Rightarrow> error option \<Rightarrow> store \<Rightarrow> world \<Rightarrow> (error option \<times> bool) \<times> store \<times> world" where
  "cb locked p err s w =
     (if locked then (case unlockFile p w of (_, w') \<Rightarrow> ((err, err = None), s, w'))
      else ((err, err = None), s, w))"

text \<open>\<open>(res || '').toString('utf8')\<close> and \<open>_stringToUt8(res)\<close>.\<close>

definition stringToUt8 :: "string option \<Rightarrow> string" where
  "stringToUt8 res = (case res of None \<Rightarrow> [] | Some b \<Rightarrow> b)"

text \<open>The test \<open>err && err.code !== 'ENOENT'\<close>.\<close>

definition fatal :: "error option \<Rightarrow> bool" where
  "fatal err = (case err of None \<Rightarrow> False | Some e \<Rightarrow> \<not> is_ENOENT e)"

definition adduser ::
  "utils \<Rightarrow> string \<Rightarrow> string \<Rightarrow> store \<Rightarrow> world \<Rightarrow> (error option \<times> bool) \<times> store \<times> world" where
  "adduser U usr password s w =
     (let pathPass = this_path s in
      case sanityCheck U usr password (verifyPassword U) (users s) (maxUsers s) of
        Some sanity \<Rightarrow> ((Some sanity, False), s, w)
      | None \<Rightarrow>
          (case lockAndRead pathPass w of
             ((err, res), w1) \<Rightarrow>
               (let locked = (err = None) in
                if fatal err then cb locked pathPass err s w1
                else
                  (let body = stringToUt8 res;
                       defaultUsers = parseHTPasswd U body (groupName (defaultConfig s)) (users s);
                       s1 = s\<lparr>users := users s ++ defaultUsers\<rparr>
                   in case sanityCheck U usr password (verifyPassword U) (users s1) (maxUsers s1) of
                        Some sanity \<Rightarrow> cb locked pathPass (Some sanity) s1 w1
                      | None \<Rightarrow>
                          (case addUserToHTPasswd U body usr password of
                             Inl thrown \<Rightarrow> cb locked pathPass (Some thrown) s1 w1
                           | Inr newBody \<Rightarrow>
                               (case writeFile (parseHTPasswd U) newBody s1 w1 of
                                  (werr, s2, w2) \<Rightarrow> cb locked pathPass werr s2 w2))))))"

definition changePassword ::
  "utils \<Rightarrow> string \<Rightarrow> string \<Rightarrow> string \<Rightarrow> store \<Rightarrow> world
     \<Rightarrow> (error option \<times> bool) \<times> store \<times> world" where
  "changePassword U usr password newPassword s w =
     (case lockAndRead (this_path s) w of
        ((err, res), w1) \<Rightarrow>
          (let locked = (err = None);
               pathPassFile = this_path s in
           if fatal err then cb locked pathPassFile err s w1
           else
             (let body = stringToUt8 res;
                  defaultUsers = parseHTPasswd U body (groupName (defaultConfig s)) (users s);
                  s1 = s\<lparr>users := users s ++ defaultUsers\<rparr>
              in if defaultUsers usr = None
                 then cb locked pathPassFile (Some (Error ''User not found'')) s1 w1
                 else
                   (case changePasswordToHTPasswd U body usr password newPassword of
                      Inl thrown \<Rightarrow> cb locked pathPassFile (Some thrown) s1 w1
                    | Inr newBody \<Rightarrow>
                        (case writeFile (parseHTPasswd U) newBody s1 w1 of
                           (werr, s2, w2) \<Rightarrow> cb locked pathPassFile werr s2 w2)))))"

section \<open>The codec, from the specification\<close>

text \<open>
  Modelled from the spec: \<open>parseHTPasswd\<close> of \<open>./utils\<close>, which is not among the
  sources; section 4.1 describes it as \<open>parseEntries\<close>. The text is split into lines;
  blank lines and lines beginning with \<open>#\<close> are ignored; each other line is split on
  its first \<open>:\<close> into username and hash, and a line without a \<open>:\<close> is skipped. A parsed
  username gets the hash just parsed and, as groups, the union of its groups in
  \<open>existing\<close> with the file's group name. \<open>existing\<close> is not changed.
\<close>

fun split_lines :: "string \<Rightarrow> string list" where
  "split_lines [] = [[]]"
| "split_lines (c # cs) =
     (if c = CHR 0x0A then [] # split_lines cs
      else (case split_lines cs of [] \<Rightarrow> [[c]] | l # ls \<Rightarrow> (c # l) # ls))"

definition parseLine :: "string \<Rightarrow> (string \<times> string) option" where
  "parseLine l =
     (case l of
        [] \<Rightarrow> None
      | c # _ \<Rightarrow>
          if c = CHR ''#'' then None
          else if CHR '':'' \<notin> set l then None
          else Some (takeWhile (\<lambda>x. x \<noteq> CHR '':'') l, drop 1 (dropWhile (\<lambda>x. x \<noteq> CHR '':'') l)))"

definition fileEntries :: "string \<Rightarrow> (string \<rightharpoonup> string)" where
  "fileEntries content =
     fold (\<lambda>l m. case parseLine l of None \<Rightarrow> m | Some (u, h) \<Rightarrow> m(u \<mapsto> h))
       (split_lines content) Map.empty"

definition unionGroup :: "string list \<Rightarrow> string \<Rightarrow> string list" where
  "unionGroup gs g = (if g \<in> set gs then gs else gs @ [g])"

definition parseEntries :: "string \<Rightarrow> string \<Rightarrow> users \<Rightarrow> users" where
  "parseEntries content g existing =
     (\<lambda>u. case fileEntries content u of
            None \<Rightarrow> None
          | Some h \<Rightarrow>
              Some \<lparr>passwd = h,
                    groups = (case existing u of None \<Rightarrow> [g] | Some r \<Rightarrow> unionGroup (groups r) g)\<rparr>)"

section \<open>What a pass takes from the disk\<close>




section \<open>A sample installation\<close>

text \<open>
  The configuration of the README: an \<open>admin\<close> file and the default \<open>developer\<close>
  file, no \<open>max_users\<close>. \<open>sample_resolve\<close> puts every file under \<open>/verdaccio\<close>.
\<close>

definition sample_resolve :: "string \<Rightarrow> string \<Rightarrow> string" where
  "sample_resolve self_path f = ''/verdaccio/'' @ f"

definition admin_file :: fileconf where
  "admin_file = \<lparr>isDefault = False, fileName = ''htpasswd'', groupName = ''admin'',
                  path = None, lastTime = None\<rparr>"

definition dev_file :: fileconf where
  "dev_file = \<lparr>isDefault = True, fileName = ''dev-htpasswd'', groupName = ''developer'',
                path = None, lastTime = None\<rparr>"

definition sample_conf :: authconf where
  "sample_conf = \<lparr>conf_files = Some [admin_file, dev_file], max_users = None\<rparr>"

text \<open>The store that the constructor builds from \<open>sample_conf\<close>.\<close>

definition sample_store :: store where
  "sample_store =
     \<lparr>users = Map.empty,
      files = [admin_file\<lparr>path := Some ''/verdaccio/htpasswd''\<rparr>,
               dev_file\<lparr>path := Some ''/verdaccio/dev-htpasswd''\<rparr>],
      defaultConfig = dev_file\<lparr>path := Some ''/verdaccio/dev-htpasswd''\<rparr>,
      maxUsers = Infinity,
      this_path = ''/verdaccio/dev-htpasswd''\<rparr>"

text \<open>
  A disk with both files: \<open>alice\<close> and \<open>bob\<close> are admins, \<open>alice\<close> and \<open>carol\<close>
  developers. Every other path is missing. Nothing fails, and the event loop completes
  the files in the configured order.
\<close>

definition enoent :: error where
  "enoent = SysError ''ENOENT''"

definition admin_content :: string where
  "admin_content = ''alice:A1'' @ [CHR 0x0A] @ ''bob:B1'' @ [CHR 0x0A]"

definition dev_content :: string where
  "dev_content = ''alice:A2'' @ [CHR 0x0A] @ ''carol:C2'' @ [CHR 0x0A]"

definition sample_world :: world where
  "sample_world =
     \<lparr>stat_env = (\<lambda>p. if p = ''/verdaccio/htpasswd'' then Inr \<lparr>ident = 1, time = 1000\<rparr>
                       else if p = ''/verdaccio/dev-htpasswd'' then Inr \<lparr>ident = 2, time = 2000\<rparr>
                       else Inl enoent),
      read_env = (\<lambda>p. if p = ''/verdaccio/htpasswd'' then Inr admin_content
                       else if p = ''/verdaccio/dev-htpasswd'' then Inr dev_content
                       else Inl enoent),
      write_env = (\<lambda>p body. Inr \<lparr>ident = 3, time = 3000\<rparr>),
      lock_env = (\<lambda>p. None),
      unlock_env = (\<lambda>p. None),
      sched = [],
      trace = []\<rparr>"

section \<open>Sample helpers\<close>

text \<open>
  An instance of the helpers for the sample installation: hashes are the passwords
  themselves, \<open>parseHTPasswd\<close> is \<open>parseEntries\<close>, a new user is a new last line, a
  changed password replaces the hash on the user's lines, and \<open>sanityCheck\<close> refuses an
  empty name or password, a disabled registration and a name already in the index.
\<close>

fun join_lines :: "string list \<Rightarrow> string" where
  "join_lines [] = []"
| "join_lines [l] = l"
| "join_lines (l # ls) = l @ [CHR 0x0A] @ join_lines ls"

definition sample_add :: "string \<Rightarrow> string \<Rightarrow> string \<Rightarrow> error + string" where
  "sample_add body usr password = Inr (body @ usr @ '':'' @ password @ [CHR 0x0A])"

definition sample_change :: "string \<Rightarrow> string \<Rightarrow> string \<Rightarrow> string \<Rightarrow> error + string" where
  "sample_change body usr password newPassword =
     (case fileEntries body usr of
        None \<Rightarrow> Inl (Error ''user not found'')
      | Some h \<Rightarrow>
          if h \<noteq> password then Inl (Error ''invalid old password'')
          else Inr (join_lines (map (\<lambda>l. case parseLine l of
                                          None \<Rightarrow> l
                                        | Some (u, h) \<Rightarrow> if u = usr then u @ '':'' @ newPassword else l)
                                  (split_lines body))))"

definition sample_sanity ::
  "string \<Rightarrow> string \<Rightarrow> (string \<Rightarrow> string \<Rightarrow> bool) \<Rightarrow> users \<Rightarrow> number \<Rightarrow> error option" where
  "sample_sanity usr password verify us maxU =
     (if usr = [] \<or> password = [] then Some (Error ''username and password is required'')
      else if (case maxU of Num n \<Rightarrow> n < 0 | Infinity \<Rightarrow> False)
        then Some (Error ''user registration disabled'')
      else if us usr \<noteq> None then Some (Error ''username is already registered'')
      else None)"

definition sample_utils :: utils where
  "sample_utils =
     \<lparr>verifyPassword = (\<lambda>password hash. hash = password),
      parseHTPasswd = parseEntries,
      addUserToHTPasswd = sample_add,
      changePasswordToHTPasswd = sample_change,
      sanityCheck = sample_sanity\<rparr>"

section \<open>Sample states\<close>

text \<open>
  The sample store after a first reload from the sample disk, and the same with a
  user \<open>zoe\<close> that an earlier reload found in the admin file and that the file on the
  sample disk does not list any more.
\<close>

definition loaded_store :: store where
  "loaded_store =
     sample_store
       \<lparr>users := [''alice'' \<mapsto> \<lparr>passwd = ''A2'', groups = [''admin'', ''developer'']\<rparr>,
                  ''bob'' \<mapsto> \<lparr>passwd = ''B1'', groups = [''admin'']\<rparr>,
                  ''carol'' \<mapsto> \<lparr>passwd = ''C2'', groups = [''developer'']\<rparr>],
        files := [admin_file\<lparr>path := Some ''/verdaccio/htpasswd'',
                              lastTime := Some \<lparr>ident = 1, time = 1000\<rparr>\<rparr>,
                  dev_file\<lparr>path := Some ''/verdaccio/dev-htpasswd'',
                            lastTime := Some \<lparr>ident = 2, time = 2000\<rparr>\<rparr>]\<rparr>"

definition zoe_store :: store where
  "zoe_store = sample_store\<lparr>users := [''zoe'' \<mapsto> \<lparr>passwd = ''Z'', groups = [''admin'']\<rparr>]\<rparr>"

text \<open>
  The sample disk before the default file exists: \<open>fs.stat\<close> and the read under the
  lock report ENOENT for it, and the lock itself is acquired.
\<close>

definition fresh_world :: world where
  "fresh_world =
     sample_world
       \<lparr>stat_env := (stat_env sample_world)(''/verdaccio/dev-htpasswd'' := Inl enoent),
        read_env := (read_env sample_world)(''/verdaccio/dev-htpasswd'' := Inl enoent)\<rparr>"

text \<open>
  The sample disk with an admin file that \<open>fs.stat\<close> finds and \<open>fs.readFile\<close> may not
  read, and the sample disk without the admin file.
\<close>

definition unreadable_world :: world where
  "unreadable_world =
     sample_world
       \<lparr>read_env := (read_env sample_world)(''/verdaccio/htpasswd'' := Inl (SysError ''EACCES''))\<rparr>"


section \<open>Construction\<close>

lemma find_isDefault_map:
  "find isDefault (map (\<lambda>item. item\<lparr>path := Some (f item)\<rparr>) fs) =
     map_option (\<lambda>item. item\<lparr>path := Some (f item)\<rparr>) (find isDefault fs)"
  by (induction fs) auto

lemma find_filter_Nil: "(find P xs = None) = (filter P xs = [])"
  by (induction xs) auto

lemma find_filter_Cons: "find P xs = Some d \<Longrightarrow> \<exists>rest. filter P xs = d # rest"
  by (induction xs) (auto split: if_splits)

text \<open>
  C7, as amended. The constructor throws exactly when \<open>files\<close> is missing, is empty, or
  has no entry marked default. With one or more entries marked default it succeeds, and
  the first of them becomes the default file. (\<open>Path.resolve\<close> never returns the empty
  string.)
\<close>

theorem constructor_throws_iff_no_default:
  assumes "\<And>d f. resolve d f \<noteq> []"
  shows "(case constructor resolve config self_path of
            Inl thrown \<Rightarrow>
              (case conf_files config of
                 None \<Rightarrow> True
               | Some fs \<Rightarrow> fs = [] \<or> filter isDefault fs = [])
          | Inr s \<Rightarrow>
              (\<exists>fs d rest. conf_files config = Some fs \<and> filter isDefault fs = d # rest
                 \<and> defaultConfig s = d\<lparr>path := Some (resolve self_path (fileName d))\<rparr>
                 \<and> this_path s = resolve self_path (fileName d)))"
proof (cases "conf_files config")
  case None
  then show ?thesis by (simp add: constructor_def)
next
  case (Some fs)
  show ?thesis
  proof (cases "find isDefault fs")
    case None
    then have "filter isDefault fs = []"
      by (simp add: find_filter_Nil)
    with Some None show ?thesis
      by (simp add: constructor_def Let_def find_isDefault_map)
  next
    case (Some d)
    then have "fs \<noteq> []" by auto
    moreover obtain rest where "filter isDefault fs = d # rest"
      using find_filter_Cons [OF Some] by blast
    ultimately show ?thesis
      using \<open>conf_files config = Some fs\<close> Some assms
      by (simp add: constructor_def Let_def find_isDefault_map)
  qed
qed

theorem constructor_throws_iff_no_default_witness:
  "(\<forall>d f. sample_resolve d f \<noteq> [])
   \<and> constructor sample_resolve sample_conf ''/verdaccio/config.yaml'' = Inr sample_store
   \<and> filter isDefault [admin_file, dev_file] = [dev_file]
   \<and> this_path sample_store = sample_resolve ''/verdaccio/config.yaml'' (fileName dev_file)
   \<and> isl (constructor sample_resolve (sample_conf\<lparr>conf_files := Some [admin_file]\<rparr>) ''/verdaccio/config.yaml'')"
proof -
  have r: "\<And>d f. sample_resolve d f \<noteq> []"
    by (simp add: sample_resolve_def)
  have c: "constructor sample_resolve sample_conf ''/verdaccio/config.yaml'' = Inr sample_store"
    by (simp add: constructor_def sample_resolve_def sample_conf_def sample_store_def
        admin_file_def dev_file_def or_Infinity_def)
  have f: "filter isDefault [admin_file, dev_file] = [dev_file]"
    by (simp add: admin_file_def dev_file_def)
  have n: "conf_files (sample_conf\<lparr>conf_files := Some [admin_file]\<rparr>) = Some [admin_file]"
    by simp
  have "isl (constructor sample_resolve (sample_conf\<lparr>conf_files := Some [admin_file]\<rparr>) ''/verdaccio/config.yaml'')"
    using constructor_throws_iff_no_default [of sample_resolve
        "sample_conf\<lparr>conf_files := Some [admin_file]\<rparr>" "''/verdaccio/config.yaml''", OF r]
    by (auto simp: n admin_file_def split: sum.splits)
  moreover have "this_path sample_store = sample_resolve ''/verdaccio/config.yaml'' (fileName dev_file)"
    using constructor_throws_iff_no_default [of sample_resolve sample_conf "''/verdaccio/config.yaml''", OF r]
    unfolding c by (auto simp: sample_conf_def sample_store_def admin_file_def dev_file_def)
  ultimately show ?thesis using r c f by simp
qed

text \<open>
  C7, as the claim states it, fails: with two entries marked default the constructor
  does not throw.
\<close>

theorem constructor_two_defaults_counterexample:
  "length (filter isDefault [admin_file\<lparr>isDefault := True\<rparr>, dev_file]) = 2
   \<and> constructor sample_resolve
       \<lparr>conf_files = Some [admin_file\<lparr>isDefault := True\<rparr>, dev_file], max_users = None\<rparr>
       ''/verdaccio/config.yaml''
     = Inr (sample_store
         \<lparr>files := [admin_file\<lparr>isDefault := True, path := Some ''/verdaccio/htpasswd''\<rparr>,
                    dev_file\<lparr>path := Some ''/verdaccio/dev-htpasswd''\<rparr>],
          defaultConfig := admin_file\<lparr>isDefault := True, path := Some ''/verdaccio/htpasswd''\<rparr>,
          this_path := ''/verdaccio/htpasswd''\<rparr>)"
  by (simp add: constructor_def sample_resolve_def sample_store_def
      admin_file_def dev_file_def or_Infinity_def)

text \<open>
  C9. Whenever construction succeeds, a \<open>max_users\<close> that is absent or 0 has become
  \<open>Infinity\<close>, and every other integer, negative ones included, is kept as given.
\<close>

theorem max_users_zero_is_unbounded:
  assumes "constructor resolve config self_path = Inr s"
  shows "(max_users config = None \<longrightarrow> maxUsers s = Infinity)
       \<and> (max_users config = Some (Num 0) \<longrightarrow> maxUsers s = Infinity)
       \<and> (\<forall>n. n \<noteq> 0 \<and> max_users config = Some (Num n) \<longrightarrow> maxUsers s = Num n)"
  using assms
  by (auto simp: constructor_def or_Infinity_def Let_def split: option.splits if_splits)

theorem max_users_zero_is_unbounded_witness:
  "constructor sample_resolve (sample_conf\<lparr>max_users := Some (Num 0)\<rparr>) ''/verdaccio/config.yaml''
     = Inr sample_store
   \<and> max_users sample_conf = None
   \<and> constructor sample_resolve sample_conf ''/verdaccio/config.yaml'' = Inr sample_store
   \<and> maxUsers sample_store = Infinity
   \<and> constructor sample_resolve (sample_conf\<lparr>max_users := Some (Num (- 1))\<rparr>) ''/verdaccio/config.yaml''
     = Inr (sample_store\<lparr>maxUsers := Num (- 1)\<rparr>)
   \<and> maxUsers (sample_store\<lparr>maxUsers := Num (- 1)\<rparr>) = Num (- 1)"
proof -
  have a: "constructor sample_resolve (sample_conf\<lparr>max_users := Some (Num 0)\<rparr>) ''/verdaccio/config.yaml''
     = Inr sample_store"
    by (simp add: constructor_def sample_resolve_def sample_conf_def sample_store_def
        admin_file_def dev_file_def or_Infinity_def)
  have b: "constructor sample_resolve (sample_conf\<lparr>max_users := Some (Num (- 1))\<rparr>) ''/verdaccio/config.yaml''
     = Inr (sample_store\<lparr>maxUsers := Num (- 1)\<rparr>)"
    by (simp add: constructor_def sample_resolve_def sample_conf_def sample_store_def
        admin_file_def dev_file_def or_Infinity_def)
  have c: "constructor sample_resolve sample_conf ''/verdaccio/config.yaml'' = Inr sample_store"
    by (simp add: constructor_def sample_resolve_def sample_conf_def sample_store_def
        admin_file_def dev_file_def or_Infinity_def)
  have n: "max_users sample_conf = None"
    by (simp add: sample_conf_def)
  from max_users_zero_is_unbounded [OF a] max_users_zero_is_unbounded [OF b]
    max_users_zero_is_unbounded [OF c] a b c n
  show ?thesis by simp
qed

section \<open>What a reload pass can change\<close>

lemma map_add_keeps: "us x = Some y \<Longrightarrow> \<exists>z. (us ++ m) x = Some z"
  by (cases "m x") (auto simp: map_add_def)

lemma reloadFile_dom:
  "reloadFile parse item us w = (e, item', us', w') \<Longrightarrow> dom us \<subseteq> dom us'"
  by (auto simp: reloadFile_def Let_def map_add_keeps split: option.splits if_splits sum.splits)

lemma reloadFile_env:
  "reloadFile parse item us w = (e, item', us', w') \<Longrightarrow>
     stat_env w' = stat_env w \<and> read_env w' = read_env w \<and> write_env w' = write_env w
     \<and> lock_env w' = lock_env w \<and> unlock_env w' = unlock_env w \<and> sched w' = sched w"
  by (auto simp: reloadFile_def Let_def emit_def split: option.splits if_splits sum.splits)


text \<open>One step of \<open>reloadAll\<close>, named.\<close>

lemma reloadAll_Cons_cases:
  obtains e1 item1 us1 w1 e2 s2 w2 where
    "reloadFile parse (files s ! i) (users s) w = (e1, item1, us1, w1)"
    "reloadAll parse ord (s\<lparr>files := (files s)[i := item1], users := us1\<rparr>) w1 = (e2, s2, w2)"
    "reloadAll parse (i # ord) s w = ((case e1 of Some e \<Rightarrow> Some e | None \<Rightarrow> e2), s2, w2)"
proof -
  obtain e1 item1 us1 w1 where st: "reloadFile parse (files s ! i) (users s) w = (e1, item1, us1, w1)"
    by (cases "reloadFile parse (files s ! i) (users s) w") auto
  obtain e2 s2 w2 where rest:
    "reloadAll parse ord (s\<lparr>files := (files s)[i := item1], users := us1\<rparr>) w1 = (e2, s2, w2)"
    by (cases "reloadAll parse ord (s\<lparr>files := (files s)[i := item1], users := us1\<rparr>) w1") auto
  from st rest have "reloadAll parse (i # ord) s w = ((case e1 of Some e \<Rightarrow> Some e | None \<Rightarrow> e2), s2, w2)"
    by simp
  with st rest show thesis using that by blast
qed

lemma reloadAll_dom:
  "reloadAll parse ord s w = (e, s', w') \<Longrightarrow> dom (users s) \<subseteq> dom (users s')"
proof (induction ord arbitrary: s w e s' w')
  case Nil
  then show ?case by simp
next
  case (Cons i ord)
  obtain e1 item1 us1 w1 e2 s2 w2 where
    st: "reloadFile parse (files s ! i) (users s) w = (e1, item1, us1, w1)" and
    rest: "reloadAll parse ord (s\<lparr>files := (files s)[i := item1], users := us1\<rparr>) w1 = (e2, s2, w2)" and
    all: "reloadAll parse (i # ord) s w = ((case e1 of Some e \<Rightarrow> Some e | None \<Rightarrow> e2), s2, w2)"
    by (rule reloadAll_Cons_cases)
  from Cons.prems all have "s' = s2" by simp
  moreover from Cons.IH [OF rest] have "dom us1 \<subseteq> dom (users s2)" by simp
  moreover from reloadFile_dom [OF st] have "dom (users s) \<subseteq> dom us1" .
  ultimately show ?case by blast
qed


lemma reload_dom: "reload parse s w = (e, s', w') \<Longrightarrow> dom (users s) \<subseteq> dom (users s')"
  unfolding reload_def by (rule reloadAll_dom)


section \<open>The steps of a mutation\<close>

lemma cb_eq:
  "cb locked p err s w = ((err, err = None), s, if locked then emit (Unlock p) w else w)"
  by (simp add: cb_def unlockFile_def)




lemma writeFile_dom:
  assumes "writeFile parse body s w = (e, s', w')"
  shows "dom (users s) \<subseteq> dom (users s')"
proof (cases "fs_writeFile (this_path s) body w")
  case (Pair e1 w1)
  show ?thesis
  proof (cases e1)
    case None
    obtain e2 s2 w2 where r: "reload parse s w1 = (e2, s2, w2)"
      by (cases "reload parse s w1") auto
    with assms Pair None have "s' = s2" by (simp add: writeFile_def)
    with reload_dom [OF r] show ?thesis by simp
  next
    case (Some x)
    with assms Pair have "s' = s" by (simp add: writeFile_def)
    then show ?thesis by simp
  qed
qed


lemma dom_map_add_left: "dom m \<subseteq> dom (m ++ n)"
  by auto

text \<open>
  The exit paths of \<open>adduser\<close>: the preliminary check fails; \<open>lockAndRead\<close> reports an
  error other than ENOENT; the check after the merge fails; \<open>addUserToHTPasswd\<close>
  throws; the file is written (with or without success). On each path, what the
  caller gets, the store and the world.
\<close>

lemma adduser_cases:
  obtains
    (pre) sanity where
      "sanityCheck U usr password (verifyPassword U) (users s) (maxUsers s) = Some sanity"
      "adduser U usr password s w = ((Some sanity, False), s, w)"
  | (fatal) err res w1 where
      "sanityCheck U usr password (verifyPassword U) (users s) (maxUsers s) = None"
      "lockAndRead (this_path s) w = ((Some err, res), w1)"
      "\<not> is_ENOENT err"
      "adduser U usr password s w = ((Some err, False), s, w1)"
  | (post) err res w1 s1 sanity where
      "sanityCheck U usr password (verifyPassword U) (users s) (maxUsers s) = None"
      "lockAndRead (this_path s) w = ((err, res), w1)"
      "\<not> fatal err"
      "s1 = s\<lparr>users := users s ++
         parseHTPasswd U (stringToUt8 res) (groupName (defaultConfig s)) (users s)\<rparr>"
      "sanityCheck U usr password (verifyPassword U) (users s1) (maxUsers s1) = Some sanity"
      "adduser U usr password s w =
         ((Some sanity, False), s1, if err = None then emit (Unlock (this_path s)) w1 else w1)"
  | (thrown) err res w1 s1 thrown where
      "sanityCheck U usr password (verifyPassword U) (users s) (maxUsers s) = None"
      "lockAndRead (this_path s) w = ((err, res), w1)"
      "\<not> fatal err"
      "s1 = s\<lparr>users := users s ++
         parseHTPasswd U (stringToUt8 res) (groupName (defaultConfig s)) (users s)\<rparr>"
      "sanityCheck U usr password (verifyPassword U) (users s1) (maxUsers s1) = None"
      "addUserToHTPasswd U (stringToUt8 res) usr password = Inl thrown"
      "adduser U usr password s w =
         ((Some thrown, False), s1, if err = None then emit (Unlock (this_path s)) w1 else w1)"
  | (written) err res w1 s1 newBody werr s2 w2 where
      "sanityCheck U usr password (verifyPassword U) (users s) (maxUsers s) = None"
      "lockAndRead (this_path s) w = ((err, res), w1)"
      "\<not> fatal err"
      "s1 = s\<lparr>users := users s ++
         parseHTPasswd U (stringToUt8 res) (groupName (defaultConfig s)) (users s)\<rparr>"
      "sanityCheck U usr password (verifyPassword U) (users s1) (maxUsers s1) = None"
      "addUserToHTPasswd U (stringToUt8 res) usr password = Inr newBody"
      "writeFile (parseHTPasswd U) newBody s1 w1 = (werr, s2, w2)"
      "adduser U usr password s w =
         ((werr, werr = None), s2, if err = None then emit (Unlock (this_path s)) w2 else w2)"
proof (cases "sanityCheck U usr password (verifyPassword U) (users s) (maxUsers s)")
  case (Some sanity)
  then show thesis using pre by (simp add: adduser_def)
next
  case None
  note pre_ok = None
  obtain err res w1 where lr: "lockAndRead (this_path s) w = ((err, res), w1)"
    by (cases "lockAndRead (this_path s) w") auto
  show thesis
  proof (cases "fatal err")
    case True
    then obtain e where e: "err = Some e" "\<not> is_ENOENT e"
      by (auto simp: fatal_def split: option.splits)
    with pre_ok lr True show thesis
      using fatal [of e res w1] by (simp add: adduser_def cb_eq)
  next
    case False
    define s1 where "s1 = s\<lparr>users := users s ++
         parseHTPasswd U (stringToUt8 res) (groupName (defaultConfig s)) (users s)\<rparr>"
    show thesis
    proof (cases "sanityCheck U usr password (verifyPassword U) (users s1) (maxUsers s1)")
      case (Some sanity)
      with pre_ok lr False s1_def show thesis
        using post [of err res w1 s1 sanity] by (simp add: adduser_def cb_eq Let_def)
    next
      case None
      show thesis
      proof (cases "addUserToHTPasswd U (stringToUt8 res) usr password")
        case (Inl t)
        with pre_ok lr False s1_def None show thesis
          using thrown [of err res w1 s1 t] by (simp add: adduser_def cb_eq Let_def)
      next
        case (Inr newBody)
        obtain werr s2 w2 where wf: "writeFile (parseHTPasswd U) newBody s1 w1 = (werr, s2, w2)"
          by (cases "writeFile (parseHTPasswd U) newBody s1 w1") auto
        with pre_ok lr False s1_def None Inr show thesis
          using written [of err res w1 s1 newBody werr s2 w2]
          by (simp add: adduser_def cb_eq Let_def)
      qed
    qed
  qed
qed

text \<open>The exit paths of \<open>changePassword\<close>, in the same way.\<close>

lemma changePassword_cases:
  obtains
    (fatal) err res w1 where
      "lockAndRead (this_path s) w = ((Some err, res), w1)"
      "\<not> is_ENOENT err"
      "changePassword U usr password newPassword s w = ((Some err, False), s, w1)"
  | (notfound) err res w1 s1 where
      "lockAndRead (this_path s) w = ((err, res), w1)"
      "\<not> fatal err"
      "s1 = s\<lparr>users := users s ++
         parseHTPasswd U (stringToUt8 res) (groupName (defaultConfig s)) (users s)\<rparr>"
      "parseHTPasswd U (stringToUt8 res) (groupName (defaultConfig s)) (users s) usr = None"
      "changePassword U usr password newPassword s w =
         ((Some (Error ''User not found''), False), s1,
          if err = None then emit (Unlock (this_path s)) w1 else w1)"
  | (thrown) err res w1 s1 thrown where
      "lockAndRead (this_path s) w = ((err, res), w1)"
      "\<not> fatal err"
      "s1 = s\<lparr>users := users s ++
         parseHTPasswd U (stringToUt8 res) (groupName (defaultConfig s)) (users s)\<rparr>"
      "parseHTPasswd U (stringToUt8 res) (groupName (defaultConfig s)) (users s) usr \<noteq> None"
      "changePasswordToHTPasswd U (stringToUt8 res) usr password newPassword = Inl thrown"
      "changePassword U usr password newPassword s w =
         ((Some thrown, False), s1, if err = None then emit (Unlock (this_path s)) w1 else w1)"
  | (written) err res w1 s1 newBody werr s2 w2 where
      "lockAndRead (this_path s) w = ((err, res), w1)"
      "\<not> fatal err"
      "s1 = s\<lparr>users := users s ++
         parseHTPasswd U (stringToUt8 res) (groupName (defaultConfig s)) (users s)\<rparr>"
      "parseHTPasswd U (stringToUt8 res) (groupName (defaultConfig s)) (users s) usr \<noteq> None"
      "changePasswordToHTPasswd U (stringToUt8 res) usr password newPassword = Inr newBody"
      "writeFile (parseHTPasswd U) newBody s1 w1 = (werr, s2, w2)"
      "changePassword U usr password newPassword s w =
         ((werr, werr = None), s2, if err = None then emit (Unlock (this_path s)) w2 else w2)"
proof -
  obtain err res w1 where lr: "lockAndRead (this_path s) w = ((err, res), w1)"
    by (cases "lockAndRead (this_path s) w") auto
  show thesis
  proof (cases "fatal err")
    case True
    then obtain e where e: "err = Some e" "\<not> is_ENOENT e"
      by (auto simp: fatal_def split: option.splits)
    with lr True show thesis
      using fatal [of e res w1] by (simp add: changePassword_def cb_eq)
  next
    case False
    define s1 where "s1 = s\<lparr>users := users s ++
         parseHTPasswd U (stringToUt8 res) (groupName (defaultConfig s)) (users s)\<rparr>"
    show thesis
    proof (cases "parseHTPasswd U (stringToUt8 res) (groupName (defaultConfig s)) (users s) usr")
      case None
      with lr False s1_def show thesis
        using notfound [of err res w1 s1] by (simp add: changePassword_def cb_eq Let_def)
    next
      case (Some r)
      show thesis
      proof (cases "changePasswordToHTPasswd U (stringToUt8 res) usr password newPassword")
        case (Inl t)
        with lr False s1_def Some show thesis
          using thrown [of err res w1 s1 t] by (simp add: changePassword_def cb_eq Let_def)
      next
        case (Inr newBody)
        obtain werr s2 w2 where wf: "writeFile (parseHTPasswd U) newBody s1 w1 = (werr, s2, w2)"
          by (cases "writeFile (parseHTPasswd U) newBody s1 w1") auto
        with lr False s1_def Some Inr show thesis
          using written [of err res w1 s1 newBody werr s2 w2]
          by (simp add: changePassword_def cb_eq Let_def)
      qed
    qed
  qed
qed

section \<open>The index only grows\<close>

lemma authenticate_dom:
  "dom (users s) \<subseteq> dom (users (fst (snd (authenticate U usr password s w))))"
proof -
  obtain e s' w' where r: "reload (parseHTPasswd U) s w = (e, s', w')"
    by (cases "reload (parseHTPasswd U) s w") auto
  then have "fst (snd (authenticate U usr password s w)) = s'"
    by (simp add: authenticate_def split: option.splits)
  with reload_dom [OF r] show ?thesis by simp
qed

lemma adduser_dom:
  "dom (users s) \<subseteq> dom (users (fst (snd (adduser U usr password s w))))"
proof (cases rule: adduser_cases [of U usr password s w])
  case (pre sanity)
  then show ?thesis by simp
next
  case (fatal err res w1)
  then show ?thesis by simp
next
  case (post err res w1 s1 sanity)
  then show ?thesis by (simp add: dom_map_add_left)
next
  case (thrown err res w1 s1 thrown)
  then show ?thesis by (simp add: dom_map_add_left)
next
  case (written err res w1 s1 newBody werr s2 w2)
  have "dom (users s) \<subseteq> dom (users s1)"
    using written(4) by (simp add: dom_map_add_left)
  also have "\<dots> \<subseteq> dom (users s2)"
    using writeFile_dom [OF written(7)] .
  finally show ?thesis using written(8) by simp
qed

lemma changePassword_dom:
  "dom (users s) \<subseteq> dom (users (fst (snd (changePassword U usr password newPassword s w))))"
proof (cases rule: changePassword_cases [of s w U usr password newPassword])
  case (fatal err res w1)
  then show ?thesis by simp
next
  case (notfound err res w1 s1)
  then show ?thesis by (simp add: dom_map_add_left)
next
  case (thrown err res w1 s1 thrown)
  then show ?thesis by (simp add: dom_map_add_left)
next
  case (written err res w1 s1 newBody werr s2 w2)
  have "dom (users s) \<subseteq> dom (users s1)"
    using written(3) by (simp add: dom_map_add_left)
  also have "\<dots> \<subseteq> dom (users s2)"
    using writeFile_dom [OF written(6)] .
  finally show ?thesis using written(7) by simp
qed

text \<open>
  C6. Every username in the index before \<open>reload\<close>, \<open>authenticate\<close>, \<open>adduser\<close> or
  \<open>changePassword\<close> is in the index after it, whatever the helpers, the disk and the
  order of completion are, and whether the operation succeeds or fails.
\<close>

theorem index_never_loses_a_username:
  "dom (users s) \<subseteq> dom (users (fst (snd (reload parse s w))))
   \<and> dom (users s) \<subseteq> dom (users (fst (snd (authenticate U usr password s w))))
   \<and> dom (users s) \<subseteq> dom (users (fst (snd (adduser U usr password s w))))
   \<and> dom (users s) \<subseteq> dom (users (fst (snd (changePassword U usr password newPassword s w))))"
proof -
  have "dom (users s) \<subseteq> dom (users (fst (snd (reload parse s w))))"
    using reload_dom [of parse s w] by (cases "reload parse s w") auto
  then show ?thesis
    by (simp add: authenticate_dom adduser_dom changePassword_dom)
qed

theorem index_never_loses_a_username_witness:
  "fileEntries admin_content ''zoe'' = None \<and> fileEntries dev_content ''zoe'' = None
   \<and> ''zoe'' \<in> dom (users (fst (snd (reload parseEntries zoe_store sample_world))))
   \<and> ''zoe'' \<in> dom (users (fst (snd (authenticate sample_utils ''zoe'' ''Z'' zoe_store sample_world))))
   \<and> ''zoe'' \<in> dom (users (fst (snd (adduser sample_utils ''dave'' ''D'' zoe_store sample_world))))
   \<and> ''zoe'' \<in> dom (users (fst (snd
        (changePassword sample_utils ''carol'' ''C2'' ''new'' zoe_store sample_world))))"
proof -
  have z: "''zoe'' \<in> dom (users zoe_store)"
    by (simp add: zoe_store_def)
  have n: "fileEntries admin_content ''zoe'' = None \<and> fileEntries dev_content ''zoe'' = None"
    by (simp add: fileEntries_def parseLine_def admin_content_def dev_content_def)
  from z n show ?thesis
    using index_never_loses_a_username
      [of zoe_store parseEntries sample_world sample_utils "''zoe''" "''Z''"]
      index_never_loses_a_username
      [of zoe_store parseEntries sample_world sample_utils "''dave''" "''D''"]
      index_never_loses_a_username
      [of zoe_store parseEntries sample_world sample_utils "''carol''" "''C2''" "''new''"]
    by blast
qed

section \<open>Releasing the lock\<close>












lemmas sample_defs = sample_store_def sample_world_def sample_utils_def admin_file_def dev_file_def
  admin_content_def dev_content_def enoent_def sample_add_def sample_change_def sample_sanity_def
  fresh_world_def loaded_store_def zoe_store_def




section \<open>Validation and the write\<close>









section \<open>A reload pass, file by file\<close>

lemma completion_order_distinct: "distinct (completion_order n sch)"
  by (auto simp: completion_order_def)

lemma completion_order_set: "set (completion_order n sch) = {..<n}"
  by (auto simp: completion_order_def)

text \<open>
  Whether a file's chain rejects, and what becomes of the item, depends on the item
  and the disk only, not on the index or the trace.
\<close>

lemma reloadFile_item_indep:
  assumes "stat_env w2 = stat_env w" and "read_env w2 = read_env w"
  shows "fst (reloadFile parse item us2 w2) = fst (reloadFile parse item us w)
       \<and> fst (snd (reloadFile parse item us2 w2)) = fst (snd (reloadFile parse item us w))"
  using assms
  by (simp add: reloadFile_def Let_def split: option.splits sum.splits)

lemma reloadAll_files:
  assumes "reloadAll parse ord s w = (e, s', w')" and "distinct ord"
  shows "files s' ! i =
           (if i \<in> set ord \<and> i < length (files s)
            then fst (snd (reloadFile parse (files s ! i) (users s) w))
            else files s ! i)"
  using assms
proof (induction ord arbitrary: s w e s' w')
  case Nil
  then show ?case by simp
next
  case (Cons k ord)
  obtain e1 item1 us1 w1 e2 s2 w2 where
    st: "reloadFile parse (files s ! k) (users s) w = (e1, item1, us1, w1)" and
    rest: "reloadAll parse ord (s\<lparr>files := (files s)[k := item1], users := us1\<rparr>) w1 = (e2, s2, w2)" and
    all: "reloadAll parse (k # ord) s w = ((case e1 of Some e \<Rightarrow> Some e | None \<Rightarrow> e2), s2, w2)"
    by (rule reloadAll_Cons_cases)
  from Cons.prems all have s': "s' = s2" by simp
  from Cons.prems have d: "distinct ord" "k \<notin> set ord" by simp_all
  note ih = Cons.IH [OF rest d(1)]
  note env = reloadFile_env [OF st]
  show ?case
  proof (cases "i = k")
    case True
    with ih d s' st show ?thesis
      by (cases "k < length (files s)") (simp_all add: list_update_beyond)
  next
    case False
    have "fst (snd (reloadFile parse (files s ! i) us1 w1))
        = fst (snd (reloadFile parse (files s ! i) (users s) w))"
      using reloadFile_item_indep [of w1 w parse "files s ! i" us1 "users s"] env by simp
    with ih False s' show ?thesis by simp
  qed
qed

lemma reloadAll_error:
  assumes "reloadAll parse ord s w = (e, s', w')" and "distinct ord"
  shows "(e = None) = (\<forall>i \<in> set ord. fst (reloadFile parse (files s ! i) (users s) w) = None)
       \<and> (\<forall>x. e = Some x \<longrightarrow>
            (\<exists>i \<in> set ord. fst (reloadFile parse (files s ! i) (users s) w) = Some x))"
  using assms
proof (induction ord arbitrary: s w e s' w')
  case Nil
  then show ?case by simp
next
  case (Cons k ord)
  obtain e1 item1 us1 w1 e2 s2 w2 where
    st: "reloadFile parse (files s ! k) (users s) w = (e1, item1, us1, w1)" and
    rest: "reloadAll parse ord (s\<lparr>files := (files s)[k := item1], users := us1\<rparr>) w1 = (e2, s2, w2)" and
    all: "reloadAll parse (k # ord) s w = ((case e1 of Some e \<Rightarrow> Some e | None \<Rightarrow> e2), s2, w2)"
    by (rule reloadAll_Cons_cases)
  note env = reloadFile_env [OF st]
  from Cons.prems have d: "distinct ord" "k \<notin> set ord" by simp_all
  have same: "fst (reloadFile parse (files (s\<lparr>files := (files s)[k := item1], users := us1\<rparr>) ! i)
            (users (s\<lparr>files := (files s)[k := item1], users := us1\<rparr>)) w1)
        = fst (reloadFile parse (files s ! i) (users s) w)" if "i \<in> set ord" for i
  proof -
    from that d have "i \<noteq> k" by auto
    then show ?thesis
      using reloadFile_item_indep [of w1 w parse "files s ! i" us1 "users s"] env by simp
  qed
  from Cons.prems(1) all have e: "e = (case e1 of Some e \<Rightarrow> Some e | None \<Rightarrow> e2)" by simp
  from Cons.IH [OF rest d(1)] same
  have ih: "(e2 = None) = (\<forall>i \<in> set ord. fst (reloadFile parse (files s ! i) (users s) w) = None)
       \<and> (\<forall>x. e2 = Some x \<longrightarrow>
            (\<exists>i \<in> set ord. fst (reloadFile parse (files s ! i) (users s) w) = Some x))"
    by simp
  show ?case
  proof (cases e1)
    case None
    with e st ih show ?thesis by simp
  next
    case (Some y)
    with e st show ?thesis by simp
  qed
qed

section \<open>Staleness\<close>

lemma reload_files:
  assumes "reload parse s w = (e, s', w')" and "i < length (files s)"
  shows "files s' ! i = fst (snd (reloadFile parse (files s ! i) (users s) w))"
  using reloadAll_files [OF assms(1) [unfolded reload_def] completion_order_distinct, of i] assms(2)
  by (simp add: completion_order_set)

lemma reload_error:
  assumes "reload parse s w = (e, s', w')"
  shows "(e = None) = (\<forall>i < length (files s). fst (reloadFile parse (files s ! i) (users s) w) = None)"
    and "e = Some x \<Longrightarrow> \<exists>i < length (files s). fst (reloadFile parse (files s ! i) (users s) w) = Some x"
  using reloadAll_error [OF assms [unfolded reload_def] completion_order_distinct]
  by (auto simp: completion_order_set)

text \<open>
  What decides between skipping and reading: whether the stored \<open>lastTime\<close> is the
  very object that \<open>fs.stat\<close> hands back.
\<close>

lemma reloadFile_skips_iff_same_object:
  assumes "path item = Some p" and "p \<noteq> []" and "stat_env w p = Inr m"
  shows "strict_eq (lastTime item) m \<Longrightarrow>
           reloadFile parse item us w = (None, item, us, emit (Stat p) w)"
    and "\<not> strict_eq (lastTime item) m \<Longrightarrow>
           trace (snd (snd (snd (reloadFile parse item us w)))) = trace w @ [Stat p, Read p]
           \<and> lastTime (fst (snd (reloadFile parse item us w))) = Some m"
  using assms
  by (simp_all add: reloadFile_def Let_def emit_def split: sum.splits)

text \<open>
  C10. When \<open>fs.stat\<close> succeeds with a time stamp that is not the stored object and
  the read then fails, \<open>_reloadFile\<close> rejects with the read's error, the index is as it
  was, and the item's \<open>lastTime\<close> is already the new time stamp. So for a configured
  file in that state, \<open>reload\<close> reports an error (this one, when every other file's chain
  succeeds) and leaves the new \<open>lastTime\<close> in the store.
\<close>

theorem lastTime_assigned_before_read:
  assumes "path item = Some p" and "p \<noteq> []" and "stat_env w p = Inr m"
    and "\<not> strict_eq (lastTime item) m" and "read_env w p = Inl err"
  shows "reloadFile parse item us w
           = (Some err, item\<lparr>lastTime := Some m\<rparr>, us, emit (Read p) (emit (Stat p) w))
       \<and> (\<forall>s i. i < length (files s) \<and> files s ! i = item \<longrightarrow>
             fst (reload parse s w) \<noteq> None
             \<and> lastTime (files (fst (snd (reload parse s w))) ! i) = Some m
             \<and> ((\<forall>k < length (files s). k \<noteq> i \<longrightarrow>
                    fst (reloadFile parse (files s ! k) (users s) w) = None)
                  \<longrightarrow> fst (reload parse s w) = Some err))"
proof -
  have one: "reloadFile parse item us w
           = (Some err, item\<lparr>lastTime := Some m\<rparr>, us, emit (Read p) (emit (Stat p) w))" for us
    using assms by (simp add: reloadFile_def Let_def)
  have "fst (reload parse s w) \<noteq> None
      \<and> lastTime (files (fst (snd (reload parse s w))) ! i) = Some m
      \<and> ((\<forall>k < length (files s). k \<noteq> i \<longrightarrow>
              fst (reloadFile parse (files s ! k) (users s) w) = None)
            \<longrightarrow> fst (reload parse s w) = Some err)"
    if i: "i < length (files s)" and item: "files s ! i = item" for s i
  proof -
    obtain e s' w' where r: "reload parse s w = (e, s', w')"
      by (cases "reload parse s w") auto
    from one [of "users s"] item
    have f: "fst (reloadFile parse (files s ! i) (users s) w) = Some err" by simp
    with reload_error(1) [OF r] i have ne: "e \<noteq> None" by auto
    from reload_files [OF r i] one [of "users s"] item
    have lt: "lastTime (files s' ! i) = Some m" by simp
    have "e = Some err"
      if other: "\<forall>k < length (files s). k \<noteq> i \<longrightarrow>
              fst (reloadFile parse (files s ! k) (users s) w) = None"
    proof -
      from ne obtain x where x: "e = Some x" by auto
      from reload_error(2) [OF r x] obtain k where
        k: "k < length (files s)" "fst (reloadFile parse (files s ! k) (users s) w) = Some x"
        by auto
      with other have "k = i" by auto
      with k f x show ?thesis by simp
    qed
    with ne lt r show ?thesis by simp
  qed
  with one show ?thesis by blast
qed

theorem lastTime_assigned_before_read_witness:
  "path (files sample_store ! 0) = Some ''/verdaccio/htpasswd''
   \<and> stat_env unreadable_world ''/verdaccio/htpasswd'' = Inr \<lparr>ident = 1, time = 1000\<rparr>
   \<and> \<not> strict_eq (lastTime (files sample_store ! 0)) \<lparr>ident = 1, time = 1000\<rparr>
   \<and> read_env unreadable_world ''/verdaccio/htpasswd'' = Inl (SysError ''EACCES'')
   \<and> fst (reload parseEntries sample_store unreadable_world) = Some (SysError ''EACCES'')
   \<and> lastTime (files (fst (snd (reload parseEntries sample_store unreadable_world))) ! 0)
       = Some \<lparr>ident = 1, time = 1000\<rparr>"
proof -
  have p: "path (files sample_store ! 0) = Some ''/verdaccio/htpasswd''"
    by (simp add: sample_defs)
  have n: "''/verdaccio/htpasswd'' \<noteq> []" by simp
  have st: "stat_env unreadable_world ''/verdaccio/htpasswd'' = Inr \<lparr>ident = 1, time = 1000\<rparr>"
    by (simp add: unreadable_world_def sample_defs)
  have se: "\<not> strict_eq (lastTime (files sample_store ! 0)) \<lparr>ident = 1, time = 1000\<rparr>"
    by (simp add: sample_defs strict_eq_def)
  have rd: "read_env unreadable_world ''/verdaccio/htpasswd'' = Inl (SysError ''EACCES'')"
    by (simp add: unreadable_world_def sample_defs)
  have l: "(0::nat) < length (files sample_store)"
    by (simp add: sample_defs)
  have other: "\<forall>k < length (files sample_store). k \<noteq> 0 \<longrightarrow>
     fst (reloadFile parseEntries (files sample_store ! k) (users sample_store) unreadable_world) = None"
    by (simp add: unreadable_world_def sample_defs reloadFile_def strict_eq_def Let_def less_Suc_eq)
  from lastTime_assigned_before_read [OF p n st se rd, where parse = parseEntries] l other
  have "fst (reload parseEntries sample_store unreadable_world) = Some (SysError ''EACCES'')
      \<and> lastTime (files (fst (snd (reload parseEntries sample_store unreadable_world))) ! 0)
          = Some \<lparr>ident = 1, time = 1000\<rparr>"
    by blast
  with p st se rd show ?thesis by simp
qed

text \<open>
  C1 fails on the code. The admin file's stored \<open>lastTime\<close> and the \<open>mtime\<close> that
  \<open>fs.stat\<close> reports are two \<open>Date\<close> objects with the same time, 1000: the modification
  time has not changed, and \<open>_reloadFile\<close> reads the file and merges it all the same,
  because \<open>===\<close> compares the objects.
\<close>

theorem unchanged_mtime_is_read_again:
  "stat_env sample_world ''/verdaccio/htpasswd'' = Inr \<lparr>ident = 1, time = 1000\<rparr>
   \<and> time \<lparr>ident = 7, time = 1000\<rparr> = time \<lparr>ident = 1, time = 1000\<rparr>
   \<and> reloadFile parseEntries
        (admin_file\<lparr>path := Some ''/verdaccio/htpasswd'', lastTime := Some \<lparr>ident = 7, time = 1000\<rparr>\<rparr>)
        Map.empty sample_world
       = (None,
          admin_file\<lparr>path := Some ''/verdaccio/htpasswd'', lastTime := Some \<lparr>ident = 1, time = 1000\<rparr>\<rparr>,
          Map.empty ++ parseEntries admin_content ''admin'' Map.empty,
          sample_world\<lparr>trace := [Stat ''/verdaccio/htpasswd'', Read ''/verdaccio/htpasswd'']\<rparr>)
   \<and> parseEntries admin_content ''admin'' Map.empty ''bob''
       = Some \<lparr>passwd = ''B1'', groups = [''admin'']\<rparr>"
  by (simp add: sample_defs reloadFile_def strict_eq_def emit_def Let_def
      parseEntries_def fileEntries_def parseLine_def)

section \<open>What authenticate answers\<close>




section \<open>The index after a successful pass\<close>
















end
